theory Spec2Isabelle
  imports Main "HOL-Library.Multiset" "HOL-Library.Product_Lexorder"
begin

section \<open>Data model\<close>

text \<open>
  The type declarations of \<^verbatim>\<open>@/types/emergency\<close> are not part of the sources at hand;
  the records below carry the fields that the components and the context read or write.
  A \<^verbatim>\<open>Date\<close> is its \<^verbatim>\<open>getTime()\<close> value (milliseconds since the epoch), a
  \<^verbatim>\<open>number\<close> (upvotes, priority) an integer, and a string a list of code units
  below 256. Field names that would clash between records carry a prefix.
\<close>

type_synonym time = int

datatype IncidentType = FIRE | MEDICAL | ACCIDENT | INFRASTRUCTURE | CRIME

datatype IncidentSeverity = LOW | MEDIUM | HIGH | CRITICAL

datatype IncidentStatus =
  UNVERIFIED | VERIFIED | ASSIGNED | IN_PROGRESS | RESOLVED | DUPLICATE | FALSE

datatype Department = POLICE | AMBULANCE | FIRE_DEPARTMENT | INFRASTRUCTURE_DEPT

record Incident =
  inc_id :: string
  itype :: IncidentType
  severity :: IncidentSeverity
  status :: IncidentStatus
  title :: string
  description :: string
  area :: string
  address :: string
  createdAt :: time
  updatedAt :: time
  upvotes :: int
  priority :: int
  reporterId :: "string option"
  assignedDepartment :: "Department option"
  verifiedAt :: "time option"
  verifiedBy :: "string option"
  duplicateOf :: "string option"
  media :: "string list"

record ActivityLog =
  log_id :: string
  incidentId :: string
  action :: string
  details :: string
  userId :: string
  userName :: string
  timestamp :: time

record Notification =
  notif_id :: string
  notif_title :: string
  message :: string
  notif_createdAt :: time
  read :: bool

record AdminNote =
  note_id :: string
  note_incidentId :: string
  content :: string
  authorId :: string
  authorName :: string
  note_createdAt :: time

record DashboardStats =
  totalActive :: int
  unverified :: int
  verifiedInProgress :: int
  resolvedToday :: int

text \<open>
  The state held by \<^verbatim>\<open>EmergencyProvider\<close>: one component per \<^verbatim>\<open>useState\<close> cell
  that the callbacks below touch or that the components read.
\<close>

record emergency_state =
  incidents :: "Incident list"
  activityLogs :: "ActivityLog list"
  notifications :: "Notification list"
  adminNotes :: "AdminNote list"
  dashboardStats :: DashboardStats
  isLiveUpdates :: bool

section \<open>Template literals\<close>

fun status_name :: "IncidentStatus \<Rightarrow> string" where
  "status_name UNVERIFIED = ''UNVERIFIED''"
| "status_name VERIFIED = ''VERIFIED''"
| "status_name ASSIGNED = ''ASSIGNED''"
| "status_name IN_PROGRESS = ''IN_PROGRESS''"
| "status_name RESOLVED = ''RESOLVED''"
| "status_name DUPLICATE = ''DUPLICATE''"
| "status_name FALSE = ''FALSE''"

fun severity_name :: "IncidentSeverity \<Rightarrow> string" where
  "severity_name LOW = ''LOW''"
| "severity_name MEDIUM = ''MEDIUM''"
| "severity_name HIGH = ''HIGH''"
| "severity_name CRITICAL = ''CRITICAL''"

definition digit :: "nat \<Rightarrow> char" where
  "digit n = char_of (48 + n)"

function string_of_nat :: "nat \<Rightarrow> string" where
  "string_of_nat n =
     (if n < 10 then [digit n] else string_of_nat (n div 10) @ [digit (n mod 10)])"
  by pat_completeness auto
termination
  by (relation "measure id") auto

declare string_of_nat.simps [simp del]

definition string_of_time :: "time \<Rightarrow> string" where
  "string_of_time t =
     (if t < 0 then CHR ''-'' # string_of_nat (nat (- t)) else string_of_nat (nat t))"

section \<open>The callbacks of the emergency context\<close>

text \<open>
  Every callback is typed \<^verbatim>\<open>=> void\<close>; its effect is the state after the queued
  \<^verbatim>\<open>setState\<close> updaters have run. \<open>now\<close> is the value of \<^verbatim>\<open>new Date()\<close> /
  \<^verbatim>\<open>Date.now()\<close> during the call.
\<close>

definition newLog :: "time \<Rightarrow> string \<Rightarrow> string \<Rightarrow> string \<Rightarrow> ActivityLog" where
  "newLog now iid act det =
     \<lparr>log_id = ''log-'' @ string_of_time now, incidentId = iid, action = act, details = det,
      userId = ''admin-001'', userName = ''John Commander'', timestamp = now\<rparr>"

definition addLog :: "time \<Rightarrow> string \<Rightarrow> string \<Rightarrow> string \<Rightarrow> emergency_state \<Rightarrow> emergency_state" where
  "addLog now iid act det s = s\<lparr>activityLogs := newLog now iid act det # activityLogs s\<rparr>"

definition updateIncidentStatus ::
  "time \<Rightarrow> string \<Rightarrow> IncidentStatus \<Rightarrow> emergency_state \<Rightarrow> emergency_state" where
  "updateIncidentStatus now iid st s =
     addLog now iid ''STATUS_CHANGED'' (''Status changed to '' @ status_name st)
       (s\<lparr>incidents :=
            map (\<lambda>inc. if inc_id inc = iid then inc\<lparr>status := st, updatedAt := now\<rparr> else inc)
              (incidents s)\<rparr>)"

definition updateIncidentSeverity ::
  "time \<Rightarrow> string \<Rightarrow> IncidentSeverity \<Rightarrow> emergency_state \<Rightarrow> emergency_state" where
  "updateIncidentSeverity now iid sv s =
     addLog now iid ''SEVERITY_CHANGED'' (''Severity updated to '' @ severity_name sv)
       (s\<lparr>incidents :=
            map (\<lambda>inc. if inc_id inc = iid then inc\<lparr>severity := sv, updatedAt := now\<rparr> else inc)
              (incidents s)\<rparr>)"

definition verifyIncident :: "time \<Rightarrow> string \<Rightarrow> emergency_state \<Rightarrow> emergency_state" where
  "verifyIncident now iid s =
     addLog now iid ''VERIFIED'' ''Incident verified by admin''
       (s\<lparr>incidents :=
            map (\<lambda>inc. if inc_id inc = iid
                        then inc\<lparr>status := VERIFIED, verifiedAt := Some now,
                                 verifiedBy := Some ''admin-001'', updatedAt := now\<rparr>
                        else inc)
              (incidents s)\<rparr>)"

definition markAsFalse :: "time \<Rightarrow> string \<Rightarrow> string \<Rightarrow> emergency_state \<Rightarrow> emergency_state" where
  "markAsFalse now iid reason s =
     addLog now iid ''MARKED_FALSE'' (''Marked as false report: '' @ reason)
       (s\<lparr>incidents :=
            map (\<lambda>inc. if inc_id inc = iid then inc\<lparr>status := FALSE, updatedAt := now\<rparr> else inc)
              (incidents s)\<rparr>)"

definition markAsDuplicate :: "time \<Rightarrow> string \<Rightarrow> string \<Rightarrow> emergency_state \<Rightarrow> emergency_state" where
  "markAsDuplicate now iid originalId s =
     addLog now iid ''MARKED_DUPLICATE'' (''Marked as duplicate of '' @ originalId)
       (s\<lparr>incidents :=
            map (\<lambda>inc. if inc_id inc = iid
                        then inc\<lparr>status := DUPLICATE, duplicateOf := Some originalId,
                                 updatedAt := now\<rparr>
                        else inc)
              (incidents s)\<rparr>)"

definition addAdminNote :: "time \<Rightarrow> string \<Rightarrow> string \<Rightarrow> emergency_state \<Rightarrow> emergency_state" where
  "addAdminNote now iid cont s =
     addLog now iid ''NOTE_ADDED'' ''Admin note added''
       (s\<lparr>adminNotes :=
            \<lparr>note_id = ''note-'' @ string_of_time now, note_incidentId = iid, content = cont,
             authorId = ''admin-001'', authorName = ''John Commander'', note_createdAt = now\<rparr>
            # adminNotes s\<rparr>)"

definition toggleLiveUpdates :: "emergency_state \<Rightarrow> emergency_state" where
  "toggleLiveUpdates s = s\<lparr>isLiveUpdates := \<not> isLiveUpdates s\<rparr>"

definition markNotificationRead :: "string \<Rightarrow> emergency_state \<Rightarrow> emergency_state" where
  "markNotificationRead nid s =
     s\<lparr>notifications :=
         map (\<lambda>n. if notif_id n = nid then n\<lparr>read := True\<rparr> else n) (notifications s)\<rparr>"

definition getUnreadNotificationCount :: "emergency_state \<Rightarrow> nat" where
  "getUnreadNotificationCount s = length (filter (\<lambda>n. \<not> read n) (notifications s))"

text \<open>
  \<^verbatim>\<open>refreshData\<close> puts the mock incidents and the mock activity logs back; \<open>mock\<close> is the
  state built from \<^verbatim>\<open>@/data/mockData\<close>, with which the provider also starts.
\<close>

definition refreshData :: "emergency_state \<Rightarrow> emergency_state \<Rightarrow> emergency_state" where
  "refreshData mock s = s\<lparr>incidents := incidents mock, activityLogs := activityLogs mock\<rparr>"

text \<open>
  The interval of the live updates: every incident that is not RESOLVED gains
  \<^verbatim>\<open>Math.floor(Math.random() * 2)\<close> upvotes, that is 0 or 1. \<open>ups\<close> lists the positions
  whose draw is 1.
\<close>

definition liveTick :: "nat list \<Rightarrow> emergency_state \<Rightarrow> emergency_state" where
  "liveTick ups s =
     s\<lparr>incidents :=
         map (\<lambda>(k, inc). inc\<lparr>upvotes := (if status inc \<noteq> RESOLVED
                                            then upvotes inc + (if k \<in> set ups then 1 else 0)
                                            else upvotes inc)\<rparr>)
           (enumerate 0 (incidents s))\<rparr>"

section \<open>Commands and their outcome\<close>

datatype command =
    UpdateIncidentStatus string IncidentStatus
  | UpdateIncidentSeverity string IncidentSeverity
  | VerifyIncident string
  | MarkAsFalse string string
  | MarkAsDuplicate string string
  | AddAdminNote string string
  | ToggleLiveUpdates
  | MarkNotificationRead string
  | RefreshData
  | LiveTick "nat list"

fun dispatch :: "time \<Rightarrow> emergency_state \<Rightarrow> command \<Rightarrow> emergency_state \<Rightarrow> emergency_state" where
  "dispatch now mock (UpdateIncidentStatus iid st) s = updateIncidentStatus now iid st s"
| "dispatch now mock (UpdateIncidentSeverity iid sv) s = updateIncidentSeverity now iid sv s"
| "dispatch now mock (VerifyIncident iid) s = verifyIncident now iid s"
| "dispatch now mock (MarkAsFalse iid reason) s = markAsFalse now iid reason s"
| "dispatch now mock (MarkAsDuplicate iid originalId) s = markAsDuplicate now iid originalId s"
| "dispatch now mock (AddAdminNote iid cont) s = addAdminNote now iid cont s"
| "dispatch now mock ToggleLiveUpdates s = toggleLiveUpdates s"
| "dispatch now mock (MarkNotificationRead nid) s = markNotificationRead nid s"
| "dispatch now mock RefreshData s = refreshData mock s"
| "dispatch now mock (LiveTick ups) s = (if isLiveUpdates s then liveTick ups s else s)"

text \<open>
  The error kinds a caller could be told about. None of the callbacks contains a
  \<^verbatim>\<open>throw\<close>, a rejected promise or an early return: the outcome of every command is
  the success branch with the state the callback leaves.
\<close>

datatype error = NotFoundError | ValidationError | InvalidTransitionError

definition perform ::
  "time \<Rightarrow> emergency_state \<Rightarrow> command \<Rightarrow> emergency_state \<Rightarrow> error + emergency_state" where
  "perform now mock c s = Inr (dispatch now mock c s)"

section \<open>The detail panel, the navbar and the timer\<close>

text \<open>
  \<^verbatim>\<open>String.prototype.trim\<close> on code units below 256: tab, line feed, vertical tab, form
  feed, carriage return, space and no-break space are stripped at both ends.
\<close>

definition isWhiteSpace :: "char \<Rightarrow> bool" where
  "isWhiteSpace c = (of_char c \<in> {9, 10, 11, 12, 13, 32, 160 :: nat})"

definition trim :: "string \<Rightarrow> string" where
  "trim str = rev (dropWhile isWhiteSpace (rev (dropWhile isWhiteSpace str)))"

definition severityOptions :: "IncidentSeverity list" where
  "severityOptions = [LOW, MEDIUM, HIGH, CRITICAL]"

definition statusOptions :: "IncidentStatus list" where
  "statusOptions = [UNVERIFIED, VERIFIED, ASSIGNED, IN_PROGRESS, RESOLVED]"

text \<open>The incidents offered as the original in the duplicate dialog of \<open>incident\<close>.\<close>

definition duplicateOptions :: "Incident \<Rightarrow> Incident list \<Rightarrow> Incident list" where
  "duplicateOptions incident incs =
     filter (\<lambda>i. inc_id i \<noteq> inc_id incident \<and> status i \<noteq> DUPLICATE \<and> status i \<noteq> FALSE) incs"







text \<open>
  What the user can fire in the panel of \<open>incident\<close>: the confirm button of each dialog,
  the note button, the two selects of the details tab, and the select of the duplicate
  dialog, which writes the picked id to the state cell \<^verbatim>\<open>duplicateId\<close>. The confirm
  events carry the value their handler reads: the reason typed, and the content of the
  cell \<^verbatim>\<open>duplicateId\<close>.
\<close>

datatype panel_event =
    ConfirmVerify
  | ConfirmFalse string
  | PickOriginal string
  | ConfirmDuplicate string
  | SendNote string
  | SelectStatus IncidentStatus
  | SelectSeverity IncidentSeverity

text \<open>
  The three footer buttons that open the dialogs are rendered only while
  \<^verbatim>\<open>incident.status === 'UNVERIFIED'\<close>; the confirm button of the false-report dialog is
  disabled while \<^verbatim>\<open>!falseReason.trim()\<close>, the one of the duplicate dialog while
  \<^verbatim>\<open>!duplicateId\<close> and under no other condition. The select of the duplicate dialog
  lists the options of \<open>duplicateOptions\<close>.
\<close>

fun offered :: "Incident \<Rightarrow> Incident list \<Rightarrow> panel_event \<Rightarrow> bool" where
  "offered incident incs ConfirmVerify = (status incident = UNVERIFIED)"
| "offered incident incs (ConfirmFalse falseReason) =
     (status incident = UNVERIFIED \<and> trim falseReason \<noteq> [])"
| "offered incident incs (PickOriginal optionId) =
     (status incident = UNVERIFIED \<and>
      optionId \<in> set (map inc_id (duplicateOptions incident incs)))"
| "offered incident incs (ConfirmDuplicate duplicateId) =
     (status incident = UNVERIFIED \<and> duplicateId \<noteq> [])"
| "offered incident incs (SendNote newNote) = (trim newNote \<noteq> [])"
| "offered incident incs (SelectStatus st) = (st \<in> set statusOptions)"
| "offered incident incs (SelectSeverity sv) = (sv \<in> set severityOptions)"









section \<open>The smart sorting of the incident table\<close>

text \<open>The comparator handed to \<^verbatim>\<open>sort\<close>, with the sign conventions of the source.\<close>

definition compareIncidents :: "Incident \<Rightarrow> Incident \<Rightarrow> int" where
  "compareIncidents a b =
     (if severity a = CRITICAL \<and> severity b \<noteq> CRITICAL then - 1
      else if severity b = CRITICAL \<and> severity a \<noteq> CRITICAL then 1
      else if priority a \<noteq> priority b then priority b - priority a
      else if upvotes a \<noteq> upvotes b then upvotes b - upvotes a
      else createdAt a - createdAt b)"

text \<open>
  \<^verbatim>\<open>Array.prototype.sort\<close> is a built-in: ECMAScript requires a stable sort by the
  comparator. It is modelled by stable insertion, an element going in front of the first
  one it does not compare greater than.
\<close>

fun insertBy :: "('a \<Rightarrow> 'a \<Rightarrow> int) \<Rightarrow> 'a \<Rightarrow> 'a list \<Rightarrow> 'a list" where
  "insertBy cmp x [] = [x]"
| "insertBy cmp x (y # ys) = (if cmp x y \<le> 0 then x # y # ys else y # insertBy cmp x ys)"

fun array_sort :: "('a \<Rightarrow> 'a \<Rightarrow> int) \<Rightarrow> 'a list \<Rightarrow> 'a list" where
  "array_sort cmp [] = []"
| "array_sort cmp (x # xs) = insertBy cmp x (array_sort cmp xs)"

definition sortedIncidents :: "Incident list \<Rightarrow> Incident list" where
  "sortedIncidents incs = array_sort compareIncidents incs"

text \<open>
  Arrays are objects: a heap holds them by address (the position in the list). The spread
  \<^verbatim>\<open>[...incidents]\<close> allocates a new array with the same elements, \<^verbatim>\<open>sort\<close> sorts that
  array in place and returns its address.
\<close>

type_synonym heap = "Incident list list"

definition spread :: "heap \<Rightarrow> nat \<Rightarrow> heap \<times> nat" where
  "spread h a = (h @ [h ! a], length h)"

definition sort_in_place :: "heap \<Rightarrow> nat \<Rightarrow> heap \<times> nat" where
  "sort_in_place h a = (h[a := array_sort compareIncidents (h ! a)], a)"

definition sortedIncidents_heap :: "heap \<Rightarrow> nat \<Rightarrow> (heap \<times> nat) option" where
  "sortedIncidents_heap h a =
     (if a < length h then (case spread h a of (h1, c) \<Rightarrow> Some (sort_in_place h1 c)) else None)"

section \<open>The properties the specification words\<close>

text \<open>Terminal statuses of the specification.\<close>

definition terminal :: "IncidentStatus \<Rightarrow> bool" where
  "terminal st = (st = RESOLVED \<or> st = FALSE \<or> st = DUPLICATE)"


text \<open>The unverified aggregate recomputed from a collection, as the specification words it.\<close>

definition countUnverified :: "Incident list \<Rightarrow> int" where
  "countUnverified incs = int (length (filter (\<lambda>i. status i = UNVERIFIED) incs))"

text \<open>
  The ranking rules of the specification: \<open>precedes a b\<close> when \<open>a\<close> has to come before
  \<open>b\<close> (CRITICAL before non-CRITICAL, then the higher priority, then the more upvotes, then
  the earlier creation), and \<open>tied a b\<close> when no rule separates them.
\<close>

definition precedes :: "Incident \<Rightarrow> Incident \<Rightarrow> bool" where
  "precedes a b =
     ((severity a = CRITICAL \<and> severity b \<noteq> CRITICAL) \<or>
      ((severity a = CRITICAL) = (severity b = CRITICAL) \<and>
       (priority b < priority a \<or>
        (priority a = priority b \<and>
         (upvotes b < upvotes a \<or>
          (upvotes a = upvotes b \<and> createdAt a < createdAt b))))))"

definition tied :: "Incident \<Rightarrow> Incident \<Rightarrow> bool" where
  "tied a b =
     ((severity a = CRITICAL) = (severity b = CRITICAL) \<and> priority a = priority b \<and>
      upvotes a = upvotes b \<and> createdAt a = createdAt b)"

text \<open>
  The same rules as one sort key, compared lexicographically: CRITICAL first, then the
  priority and the upvotes descending, then the creation time ascending.
\<close>

definition rank_key :: "Incident \<Rightarrow> nat \<times> int \<times> int \<times> int" where
  "rank_key a =
     (if severity a = CRITICAL then 0 else 1, - priority a, - upvotes a, createdAt a)"

section \<open>Sample data\<close>

definition sampleIncident :: "string \<Rightarrow> IncidentSeverity \<Rightarrow> IncidentStatus \<Rightarrow> Incident" where
  "sampleIncident iid sv st =
     \<lparr>inc_id = iid, itype = FIRE, severity = sv, status = st, title = ''Warehouse fire'',
      description = ''Smoke seen from the street'', area = ''Indiranagar'',
      address = ''12 Main Road'', createdAt = 1000, updatedAt = 1000, upvotes = 3,
      priority = 50, reporterId = None, assignedDepartment = None, verifiedAt = None,
      verifiedBy = None, duplicateOf = None, media = []\<rparr>"

definition sampleNotification :: "string \<Rightarrow> bool \<Rightarrow> Notification" where
  "sampleNotification nid r =
     \<lparr>notif_id = nid, notif_title = ''New incident'', message = ''A fire was reported'',
      notif_createdAt = 1000, read = r\<rparr>"

definition sampleState :: "Incident list \<Rightarrow> emergency_state" where
  "sampleState incs =
     \<lparr>incidents = incs, activityLogs = [],
      notifications = [sampleNotification ''n1'' False, sampleNotification ''n2'' True],
      adminNotes = [],
      dashboardStats = \<lparr>totalActive = 1, unverified = 1, verifiedInProgress = 0,
                        resolvedToday = 0\<rparr>,
      isLiveUpdates = True\<rparr>"

text \<open>Scenario 4 of the specification: equal priority, upvotes and creation time.\<close>

definition rankingSample :: "Incident list" where
  "rankingSample =
     [sampleIncident ''H'' HIGH VERIFIED, sampleIncident ''K'' CRITICAL VERIFIED,
      sampleIncident ''M'' MEDIUM VERIFIED]"

definition rankedSample :: "Incident list" where
  "rankedSample =
     [sampleIncident ''K'' CRITICAL VERIFIED, sampleIncident ''H'' HIGH VERIFIED,
      sampleIncident ''M'' MEDIUM VERIFIED]"

text \<open>Two UNVERIFIED incidents C and D (scenario 3 of the specification).\<close>

definition pairState :: emergency_state where
  "pairState =
     sampleState [sampleIncident ''C'' LOW UNVERIFIED, sampleIncident ''D'' LOW UNVERIFIED]"

section \<open>Projections of the callbacks\<close>

lemma map_if_absent:
  "k \<notin> key ` set xs \<Longrightarrow> map (\<lambda>x. if key x = k then f x else x) xs = xs"
  by (induction xs) auto

lemma incidents_addLog [simp]: "incidents (addLog now iid act det s) = incidents s"
  by (simp add: addLog_def)

lemma activityLogs_addLog [simp]:
  "activityLogs (addLog now iid act det s) = newLog now iid act det # activityLogs s"
  by (simp add: addLog_def)

lemma dashboardStats_addLog [simp]: "dashboardStats (addLog now iid act det s) = dashboardStats s"
  by (simp add: addLog_def)

lemma nth_map_if:
  "k < length xs \<Longrightarrow>
   map (\<lambda>x. if key x = i then f x else x) xs ! k = (if key (xs ! k) = i then f (xs ! k) else xs ! k)"
  by simp

lemma incidents_updateIncidentStatus:
  "incidents (updateIncidentStatus now iid st s) =
   map (\<lambda>inc. if inc_id inc = iid then inc\<lparr>status := st, updatedAt := now\<rparr> else inc) (incidents s)"
  by (simp add: updateIncidentStatus_def)

lemma incidents_updateIncidentSeverity:
  "incidents (updateIncidentSeverity now iid sv s) =
   map (\<lambda>inc. if inc_id inc = iid then inc\<lparr>severity := sv, updatedAt := now\<rparr> else inc) (incidents s)"
  by (simp add: updateIncidentSeverity_def)

lemma incidents_verifyIncident:
  "incidents (verifyIncident now iid s) =
   map (\<lambda>inc. if inc_id inc = iid
               then inc\<lparr>status := VERIFIED, verifiedAt := Some now,
                        verifiedBy := Some ''admin-001'', updatedAt := now\<rparr>
               else inc) (incidents s)"
  by (simp add: verifyIncident_def)

lemma incidents_markAsFalse:
  "incidents (markAsFalse now iid reason s) =
   map (\<lambda>inc. if inc_id inc = iid then inc\<lparr>status := FALSE, updatedAt := now\<rparr> else inc) (incidents s)"
  by (simp add: markAsFalse_def)

lemma incidents_markAsDuplicate:
  "incidents (markAsDuplicate now iid originalId s) =
   map (\<lambda>inc. if inc_id inc = iid
               then inc\<lparr>status := DUPLICATE, duplicateOf := Some originalId, updatedAt := now\<rparr>
               else inc) (incidents s)"
  by (simp add: markAsDuplicate_def)

lemma activityLogs_updateIncidentStatus:
  "activityLogs (updateIncidentStatus now iid st s) =
   newLog now iid ''STATUS_CHANGED'' (''Status changed to '' @ status_name st) # activityLogs s"
  by (simp add: updateIncidentStatus_def)

lemma activityLogs_verifyIncident:
  "activityLogs (verifyIncident now iid s) =
   newLog now iid ''VERIFIED'' ''Incident verified by admin'' # activityLogs s"
  by (simp add: verifyIncident_def)

lemma activityLogs_markAsFalse:
  "activityLogs (markAsFalse now iid reason s) =
   newLog now iid ''MARKED_FALSE'' (''Marked as false report: '' @ reason) # activityLogs s"
  by (simp add: markAsFalse_def)

lemma activityLogs_markAsDuplicate:
  "activityLogs (markAsDuplicate now iid originalId s) =
   newLog now iid ''MARKED_DUPLICATE'' (''Marked as duplicate of '' @ originalId) # activityLogs s"
  by (simp add: markAsDuplicate_def)

section \<open>Status and severity overrides on terminal incidents\<close>

text \<open>
  Claim C1, as the code has it: \<^verbatim>\<open>updateIncidentStatus\<close> and \<^verbatim>\<open>updateIncidentSeverity\<close>
  never fail and never look at the current status. Every incident with the given id gets
  the new status (or severity) and \<open>updatedAt = now\<close>, also when it is RESOLVED, FALSE or
  DUPLICATE; every other incident is kept as it is.
\<close>

theorem overrides_ignore_terminal_status:
  "perform now mock (UpdateIncidentStatus iid st) s = Inr (updateIncidentStatus now iid st s) \<and>
   perform now mock (UpdateIncidentSeverity iid sv) s = Inr (updateIncidentSeverity now iid sv s) \<and>
   length (incidents (updateIncidentStatus now iid st s)) = length (incidents s) \<and>
   length (incidents (updateIncidentSeverity now iid sv s)) = length (incidents s) \<and>
   (\<forall>k < length (incidents s).
      incidents (updateIncidentStatus now iid st s) ! k =
        (if inc_id (incidents s ! k) = iid
         then (incidents s ! k)\<lparr>status := st, updatedAt := now\<rparr> else incidents s ! k) \<and>
      incidents (updateIncidentSeverity now iid sv s) ! k =
        (if inc_id (incidents s ! k) = iid
         then (incidents s ! k)\<lparr>severity := sv, updatedAt := now\<rparr> else incidents s ! k))"
  by (simp add: perform_def incidents_updateIncidentStatus incidents_updateIncidentSeverity)

text \<open>The theorem at a RESOLVED incident: its status and its severity are overwritten.\<close>

theorem overrides_ignore_terminal_status_witness:
  "(0::nat) < length (incidents (sampleState [sampleIncident ''E'' HIGH RESOLVED])) \<and>
   status (incidents (sampleState [sampleIncident ''E'' HIGH RESOLVED]) ! 0) = RESOLVED \<and>
   status (incidents (updateIncidentStatus 5 ''E'' UNVERIFIED
              (sampleState [sampleIncident ''E'' HIGH RESOLVED])) ! 0) = UNVERIFIED \<and>
   severity (incidents (updateIncidentSeverity 5 ''E'' LOW
              (sampleState [sampleIncident ''E'' HIGH RESOLVED])) ! 0) = LOW"
  using overrides_ignore_terminal_status
    [of 5 "sampleState []" "''E''" UNVERIFIED "sampleState [sampleIncident ''E'' HIGH RESOLVED]" LOW]
  by (simp add: sampleState_def sampleIncident_def)

text \<open>
  Claim C1 as stated fails: on a RESOLVED incident neither call returns
  \<open>InvalidTransitionError\<close>, and the status and the severity change.
\<close>

theorem terminal_override_counterexample:
  "terminal (status (sampleIncident ''E'' HIGH RESOLVED)) \<and>
   perform 5 (sampleState []) (UpdateIncidentStatus ''E'' UNVERIFIED)
       (sampleState [sampleIncident ''E'' HIGH RESOLVED]) \<noteq> Inl InvalidTransitionError \<and>
   map status (incidents (dispatch 5 (sampleState []) (UpdateIncidentStatus ''E'' UNVERIFIED)
       (sampleState [sampleIncident ''E'' HIGH RESOLVED]))) = [UNVERIFIED] \<and>
   perform 5 (sampleState []) (UpdateIncidentSeverity ''E'' LOW)
       (sampleState [sampleIncident ''E'' HIGH RESOLVED]) \<noteq> Inl InvalidTransitionError \<and>
   map severity (incidents (dispatch 5 (sampleState []) (UpdateIncidentSeverity ''E'' LOW)
       (sampleState [sampleIncident ''E'' HIGH RESOLVED]))) = [LOW]"
  by (simp add: perform_def terminal_def updateIncidentStatus_def updateIncidentSeverity_def
      sampleState_def sampleIncident_def)

section \<open>Verification\<close>

text \<open>
  Claim C2, as the code has it: \<^verbatim>\<open>verifyIncident\<close> never fails. Whether or not an
  incident has the id, and whatever its status, every incident with the id gets status
  VERIFIED, \<open>verifiedAt = now\<close> and \<open>verifiedBy\<close> the constant \<^verbatim>\<open>admin-001\<close>, and
  exactly one log entry is put in front of the activity log. The detail panel renders
  its verify button only for incidents that are UNVERIFIED.
\<close>

theorem verify_is_unconditional:
  "perform now mock (VerifyIncident iid) s = Inr (verifyIncident now iid s) \<and>
   length (incidents (verifyIncident now iid s)) = length (incidents s) \<and>
   (\<forall>k < length (incidents s).
      incidents (verifyIncident now iid s) ! k =
        (if inc_id (incidents s ! k) = iid
         then (incidents s ! k)\<lparr>status := VERIFIED, verifiedAt := Some now,
                                 verifiedBy := Some ''admin-001'', updatedAt := now\<rparr>
         else incidents s ! k)) \<and>
   activityLogs (verifyIncident now iid s) =
     newLog now iid ''VERIFIED'' ''Incident verified by admin'' # activityLogs s \<and>
   (offered incident incs ConfirmVerify \<longleftrightarrow> status incident = UNVERIFIED)"
  by (simp add: perform_def incidents_verifyIncident activityLogs_verifyIncident)

text \<open>The theorem at an UNVERIFIED incident (scenario 1 of the specification).\<close>

theorem verify_is_unconditional_witness:
  "(0::nat) < length (incidents (sampleState [sampleIncident ''A'' LOW UNVERIFIED])) \<and>
   status (incidents (verifyIncident 7 ''A'' (sampleState [sampleIncident ''A'' LOW UNVERIFIED])) ! 0)
     = VERIFIED \<and>
   verifiedAt (incidents (verifyIncident 7 ''A'' (sampleState [sampleIncident ''A'' LOW UNVERIFIED])) ! 0)
     = Some 7 \<and>
   length (activityLogs (verifyIncident 7 ''A'' (sampleState [sampleIncident ''A'' LOW UNVERIFIED])))
     = 1 \<and>
   offered (sampleIncident ''A'' LOW UNVERIFIED) [sampleIncident ''A'' LOW UNVERIFIED] ConfirmVerify"
  using verify_is_unconditional
    [of 7 "sampleState []" "''A''" "sampleState [sampleIncident ''A'' LOW UNVERIFIED]"
        "sampleIncident ''A'' LOW UNVERIFIED" "[sampleIncident ''A'' LOW UNVERIFIED]"]
  by (simp add: sampleState_def sampleIncident_def)

text \<open>
  Claim C2 as stated fails: an unknown id gives no \<open>NotFoundError\<close> (and a log entry is
  written), and a RESOLVED incident gives no \<open>InvalidTransitionError\<close> and becomes
  VERIFIED.
\<close>

theorem verify_errors_counterexample:
  "''ghost'' \<notin> inc_id ` set (incidents (sampleState [sampleIncident ''E'' HIGH RESOLVED])) \<and>
   perform 7 (sampleState []) (VerifyIncident ''ghost'')
     (sampleState [sampleIncident ''E'' HIGH RESOLVED]) \<noteq> Inl NotFoundError \<and>
   length (activityLogs (dispatch 7 (sampleState []) (VerifyIncident ''ghost'')
     (sampleState [sampleIncident ''E'' HIGH RESOLVED]))) = 1 \<and>
   status (sampleIncident ''E'' HIGH RESOLVED) \<noteq> UNVERIFIED \<and>
   perform 7 (sampleState []) (VerifyIncident ''E'')
     (sampleState [sampleIncident ''E'' HIGH RESOLVED]) \<noteq> Inl InvalidTransitionError \<and>
   map status (incidents (dispatch 7 (sampleState []) (VerifyIncident ''E'')
     (sampleState [sampleIncident ''E'' HIGH RESOLVED]))) = [VERIFIED]"
  by (simp add: perform_def verifyIncident_def addLog_def sampleState_def sampleIncident_def)

section \<open>False reports\<close>

text \<open>
  Claim C3, as the code has it: \<^verbatim>\<open>markAsFalse\<close> never fails and does not look at the
  reason. For every reason, the empty one included, every incident with the id gets status
  FALSE and one log entry with the reason embedded in its details is put in front of the
  activity log. The guard against an empty or whitespace-only reason is in the detail
  panel: its confirm button cannot be fired with such a reason.
\<close>

theorem markAsFalse_is_unconditional:
  "perform now mock (MarkAsFalse iid reason) s = Inr (markAsFalse now iid reason s) \<and>
   length (incidents (markAsFalse now iid reason s)) = length (incidents s) \<and>
   (\<forall>k < length (incidents s).
      incidents (markAsFalse now iid reason s) ! k =
        (if inc_id (incidents s ! k) = iid
         then (incidents s ! k)\<lparr>status := FALSE, updatedAt := now\<rparr>
         else incidents s ! k)) \<and>
   activityLogs (markAsFalse now iid reason s) =
     newLog now iid ''MARKED_FALSE'' (''Marked as false report: '' @ reason) # activityLogs s \<and>
   details (newLog now iid ''MARKED_FALSE'' (''Marked as false report: '' @ reason)) =
     ''Marked as false report: '' @ reason \<and>
   (trim reason = [] \<longrightarrow> \<not> offered incident incs (ConfirmFalse reason))"
  by (simp add: perform_def incidents_markAsFalse activityLogs_markAsFalse newLog_def)

text \<open>The theorem at a reason of two spaces.\<close>

theorem markAsFalse_is_unconditional_witness:
  "(0::nat) < length (incidents (sampleState [sampleIncident ''B'' LOW UNVERIFIED])) \<and>
   trim ''  '' = [] \<and>
   \<not> offered (sampleIncident ''B'' LOW UNVERIFIED) [sampleIncident ''B'' LOW UNVERIFIED]
       (ConfirmFalse ''  '') \<and>
   status (incidents (markAsFalse 7 ''B'' ''  '' (sampleState [sampleIncident ''B'' LOW UNVERIFIED])) ! 0)
     = FALSE \<and>
   map details (activityLogs (markAsFalse 7 ''B'' ''  ''
       (sampleState [sampleIncident ''B'' LOW UNVERIFIED]))) = [''Marked as false report:   '']"
  using markAsFalse_is_unconditional
    [of 7 "sampleState []" "''B''" "''  ''" "sampleState [sampleIncident ''B'' LOW UNVERIFIED]"
        "sampleIncident ''B'' LOW UNVERIFIED" "[sampleIncident ''B'' LOW UNVERIFIED]"]
  by (simp add: sampleState_def sampleIncident_def trim_def isWhiteSpace_def newLog_def)

text \<open>
  Claim C3 as stated fails (scenario 2 of the specification): with the empty reason the
  call gives no \<open>ValidationError\<close>, the incident becomes FALSE and a log entry is
  written.
\<close>

theorem markAsFalse_empty_reason_counterexample:
  "perform 7 (sampleState []) (MarkAsFalse ''B'' [])
     (sampleState [sampleIncident ''B'' LOW UNVERIFIED]) \<noteq> Inl ValidationError \<and>
   map status (incidents (sampleState [sampleIncident ''B'' LOW UNVERIFIED])) = [UNVERIFIED] \<and>
   map status (incidents (dispatch 7 (sampleState []) (MarkAsFalse ''B'' [])
     (sampleState [sampleIncident ''B'' LOW UNVERIFIED]))) = [FALSE] \<and>
   length (activityLogs (sampleState [sampleIncident ''B'' LOW UNVERIFIED])) = 0 \<and>
   length (activityLogs (dispatch 7 (sampleState []) (MarkAsFalse ''B'' [])
     (sampleState [sampleIncident ''B'' LOW UNVERIFIED]))) = 1"
  by (simp add: perform_def markAsFalse_def addLog_def sampleState_def sampleIncident_def)

section \<open>Marking an incident as a duplicate\<close>

lemma set_duplicateOptions:
  "set (duplicateOptions incident incs) =
   {i \<in> set incs. inc_id i \<noteq> inc_id incident \<and> status i \<noteq> DUPLICATE \<and> status i \<noteq> FALSE}"
  by (simp add: duplicateOptions_def)

text \<open>
  Claim C4, as the code has it: \<^verbatim>\<open>markAsDuplicate\<close> never fails and checks nothing about
  \<open>originalId\<close>. Every incident with the id gets status DUPLICATE and
  \<open>duplicateOf = originalId\<close>. The restriction of the original is in the detail panel: the
  select of its duplicate dialog lists exactly the incidents with another id whose status is
  neither DUPLICATE nor FALSE.
\<close>

theorem markAsDuplicate_is_unconditional:
  "perform now mock (MarkAsDuplicate iid originalId) s = Inr (markAsDuplicate now iid originalId s) \<and>
   length (incidents (markAsDuplicate now iid originalId s)) = length (incidents s) \<and>
   (\<forall>k < length (incidents s).
      incidents (markAsDuplicate now iid originalId s) ! k =
        (if inc_id (incidents s ! k) = iid
         then (incidents s ! k)\<lparr>status := DUPLICATE, duplicateOf := Some originalId,
                                 updatedAt := now\<rparr>
         else incidents s ! k)) \<and>
   set (duplicateOptions incident incs) =
     {i \<in> set incs. inc_id i \<noteq> inc_id incident \<and> status i \<noteq> DUPLICATE \<and> status i \<noteq> FALSE}"
  by (simp add: perform_def incidents_markAsDuplicate set_duplicateOptions)

text \<open>
  The theorem at two UNVERIFIED incidents C and D, with D, the one option of the dialog of
  C, as the original of C.
\<close>

theorem markAsDuplicate_is_unconditional_witness:
  "(0::nat) < length (incidents pairState) \<and>
   duplicateOptions (sampleIncident ''C'' LOW UNVERIFIED) (incidents pairState)
     = [sampleIncident ''D'' LOW UNVERIFIED] \<and>
   map status (incidents (markAsDuplicate 7 ''C'' ''D'' pairState)) = [DUPLICATE, UNVERIFIED] \<and>
   duplicateOf (incidents (markAsDuplicate 7 ''C'' ''D'' pairState) ! 0) = Some ''D''"
  using markAsDuplicate_is_unconditional
    [of 7 "sampleState []" "''C''" "''D''" pairState
        "sampleIncident ''C'' LOW UNVERIFIED" "incidents pairState"]
  by (simp add: pairState_def sampleState_def sampleIncident_def duplicateOptions_def
      markAsDuplicate_def addLog_def perform_def)

text \<open>
  Claim C4 as stated fails: with C UNVERIFIED and D FALSE, marking C as a duplicate of
  itself gives no \<open>ValidationError\<close>, of an unknown id no \<open>NotFoundError\<close>, of the FALSE
  incident D no \<open>InvalidTransitionError\<close>; each time C becomes DUPLICATE with the given
  \<open>duplicateOf\<close>.
\<close>

theorem markAsDuplicate_errors_counterexample:
  "perform 7 (sampleState []) (MarkAsDuplicate ''C'' ''C'')
     (sampleState [sampleIncident ''C'' LOW UNVERIFIED, sampleIncident ''D'' LOW FALSE])
     \<noteq> Inl ValidationError \<and>
   map status (incidents (dispatch 7 (sampleState []) (MarkAsDuplicate ''C'' ''C'')
     (sampleState [sampleIncident ''C'' LOW UNVERIFIED, sampleIncident ''D'' LOW FALSE])))
     = [DUPLICATE, FALSE] \<and>
   map duplicateOf (incidents (dispatch 7 (sampleState []) (MarkAsDuplicate ''C'' ''C'')
     (sampleState [sampleIncident ''C'' LOW UNVERIFIED, sampleIncident ''D'' LOW FALSE])))
     = [Some ''C'', None] \<and>
   ''ghost'' \<notin> inc_id ` set (incidents
     (sampleState [sampleIncident ''C'' LOW UNVERIFIED, sampleIncident ''D'' LOW FALSE])) \<and>
   perform 7 (sampleState []) (MarkAsDuplicate ''C'' ''ghost'')
     (sampleState [sampleIncident ''C'' LOW UNVERIFIED, sampleIncident ''D'' LOW FALSE])
     \<noteq> Inl NotFoundError \<and>
   map duplicateOf (incidents (dispatch 7 (sampleState []) (MarkAsDuplicate ''C'' ''ghost'')
     (sampleState [sampleIncident ''C'' LOW UNVERIFIED, sampleIncident ''D'' LOW FALSE])))
     = [Some ''ghost'', None] \<and>
   perform 7 (sampleState []) (MarkAsDuplicate ''C'' ''D'')
     (sampleState [sampleIncident ''C'' LOW UNVERIFIED, sampleIncident ''D'' LOW FALSE])
     \<noteq> Inl InvalidTransitionError \<and>
   map duplicateOf (incidents (dispatch 7 (sampleState []) (MarkAsDuplicate ''C'' ''D'')
     (sampleState [sampleIncident ''C'' LOW UNVERIFIED, sampleIncident ''D'' LOW FALSE])))
     = [Some ''D'', None]"
  by (simp add: perform_def markAsDuplicate_def addLog_def sampleState_def sampleIncident_def)

section \<open>Unknown incident ids\<close>

text \<open>
  Claim C10: when no incident has the id, \<^verbatim>\<open>updateIncidentStatus\<close>, \<^verbatim>\<open>verifyIncident\<close>,
  \<^verbatim>\<open>markAsFalse\<close> and \<^verbatim>\<open>markAsDuplicate\<close> succeed, leave the incident collection as it
  is, and put exactly one entry in front of the activity log, the one they write when the
  incident exists.
\<close>

theorem unknown_id_still_logged:
  "iid \<notin> inc_id ` set (incidents s) \<Longrightarrow>
   (perform now mock (UpdateIncidentStatus iid st) s = Inr (updateIncidentStatus now iid st s) \<and>
    incidents (updateIncidentStatus now iid st s) = incidents s \<and>
    activityLogs (updateIncidentStatus now iid st s) =
      newLog now iid ''STATUS_CHANGED'' (''Status changed to '' @ status_name st) # activityLogs s) \<and>
   (perform now mock (VerifyIncident iid) s = Inr (verifyIncident now iid s) \<and>
    incidents (verifyIncident now iid s) = incidents s \<and>
    activityLogs (verifyIncident now iid s) =
      newLog now iid ''VERIFIED'' ''Incident verified by admin'' # activityLogs s) \<and>
   (perform now mock (MarkAsFalse iid reason) s = Inr (markAsFalse now iid reason s) \<and>
    incidents (markAsFalse now iid reason s) = incidents s \<and>
    activityLogs (markAsFalse now iid reason s) =
      newLog now iid ''MARKED_FALSE'' (''Marked as false report: '' @ reason) # activityLogs s) \<and>
   (perform now mock (MarkAsDuplicate iid originalId) s = Inr (markAsDuplicate now iid originalId s) \<and>
    incidents (markAsDuplicate now iid originalId s) = incidents s \<and>
    activityLogs (markAsDuplicate now iid originalId s) =
      newLog now iid ''MARKED_DUPLICATE'' (''Marked as duplicate of '' @ originalId) # activityLogs s)"
  by (simp add: perform_def incidents_updateIncidentStatus incidents_verifyIncident
      incidents_markAsFalse incidents_markAsDuplicate map_if_absent
      activityLogs_updateIncidentStatus activityLogs_verifyIncident activityLogs_markAsFalse
      activityLogs_markAsDuplicate)

text \<open>
  The theorem at an id that the collection does not have.
\<close>

theorem unknown_id_still_logged_witness:
  "''ghost'' \<notin> inc_id ` set (incidents (sampleState [sampleIncident ''A'' LOW UNVERIFIED])) \<and>
   incidents (verifyIncident 7 ''ghost'' (sampleState [sampleIncident ''A'' LOW UNVERIFIED]))
     = [sampleIncident ''A'' LOW UNVERIFIED] \<and>
   map action (activityLogs (verifyIncident 7 ''ghost''
       (sampleState [sampleIncident ''A'' LOW UNVERIFIED]))) = [''VERIFIED''] \<and>
   map action (activityLogs (markAsDuplicate 7 ''ghost'' ''A''
       (sampleState [sampleIncident ''A'' LOW UNVERIFIED]))) = [''MARKED_DUPLICATE'']"
proof -
  have h: "''ghost'' \<notin> inc_id ` set (incidents (sampleState [sampleIncident ''A'' LOW UNVERIFIED]))"
    by (simp add: sampleState_def sampleIncident_def)
  show ?thesis
    using h unknown_id_still_logged [OF h, of 7 "sampleState []" UNVERIFIED "[]" "''A''"]
    by (simp add: sampleState_def newLog_def)
qed

section \<open>Notifications\<close>

lemma length_notifications_markNotificationRead:
  "length (notifications (markNotificationRead nid s)) = length (notifications s)"
  by (simp add: markNotificationRead_def)

lemma nth_notifications_markNotificationRead:
  "k < length (notifications s) \<Longrightarrow>
   notifications (markNotificationRead nid s) ! k =
     (if notif_id (notifications s ! k) = nid then (notifications s ! k)\<lparr>read := True\<rparr>
      else notifications s ! k)"
  by (simp add: markNotificationRead_def)

lemma markNotificationRead_idem:
  "markNotificationRead nid (markNotificationRead nid s) = markNotificationRead nid s"
  by (simp add: markNotificationRead_def comp_def cong: if_cong)

lemma markNotificationRead_unknown:
  "nid \<notin> notif_id ` set (notifications s) \<Longrightarrow> markNotificationRead nid s = s"
  by (simp add: markNotificationRead_def map_if_absent)

text \<open>
  Claim C8: \<^verbatim>\<open>markNotificationRead\<close> is idempotent, changes nothing when no notification
  has the id, and otherwise changes a notification at most by setting its \<open>read\<close> flag: a
  notification that was read stays read.
\<close>

theorem markNotificationRead_idempotent_one_way:
  "markNotificationRead nid (markNotificationRead nid s) = markNotificationRead nid s \<and>
   (nid \<notin> notif_id ` set (notifications s) \<longrightarrow> markNotificationRead nid s = s) \<and>
   length (notifications (markNotificationRead nid s)) = length (notifications s) \<and>
   (\<forall>k < length (notifications s).
      (notifications (markNotificationRead nid s) ! k = notifications s ! k \<or>
       notifications (markNotificationRead nid s) ! k = (notifications s ! k)\<lparr>read := True\<rparr>) \<and>
      (read (notifications s ! k) \<longrightarrow> read (notifications (markNotificationRead nid s) ! k)))"
  by (simp add: markNotificationRead_idem markNotificationRead_unknown
      length_notifications_markNotificationRead nth_notifications_markNotificationRead)

text \<open>
  The theorem at an unknown id, and at the id of an unread notification next to a read one.
\<close>

theorem markNotificationRead_idempotent_one_way_witness:
  "''n9'' \<notin> notif_id ` set (notifications (sampleState [])) \<and>
   markNotificationRead ''n9'' (sampleState []) = sampleState [] \<and>
   (1::nat) < length (notifications (sampleState [])) \<and>
   read (notifications (sampleState []) ! 1) \<and>
   read (notifications (markNotificationRead ''n1'' (sampleState [])) ! 1) \<and>
   map read (notifications (markNotificationRead ''n1'' (sampleState []))) = [True, True] \<and>
   markNotificationRead ''n1'' (markNotificationRead ''n1'' (sampleState []))
     = markNotificationRead ''n1'' (sampleState [])"
  using markNotificationRead_idempotent_one_way [of "''n9''" "sampleState []"]
    markNotificationRead_idempotent_one_way [of "''n1''" "sampleState []"]
  by (simp add: sampleState_def sampleNotification_def markNotificationRead_def)

section \<open>Dashboard statistics\<close>

lemma dashboardStats_dispatch: "dashboardStats (dispatch now mock c s) = dashboardStats s"
  by (cases c)
     (simp_all add: updateIncidentStatus_def updateIncidentSeverity_def verifyIncident_def
        markAsFalse_def markAsDuplicate_def addAdminNote_def toggleLiveUpdates_def
        markNotificationRead_def refreshData_def liveTick_def)

text \<open>
  Claim C6, as the code has it: the dashboard statistics are a state cell of their own,
  initialised from the mock data and written by no callback. Every command succeeds and
  leaves them as they were, whatever it does to the incident collection.
\<close>

theorem dashboardStats_never_recomputed:
  "perform now mock c s = Inr (dispatch now mock c s) \<and>
   dashboardStats (dispatch now mock c s) = dashboardStats s"
  by (simp add: perform_def dashboardStats_dispatch)

text \<open>
  Claim C6 as stated fails: with one UNVERIFIED incident and statistics that agree with the
  collection, verifying the incident leaves the stored \<open>unverified\<close> at 1 while the count
  over the collection is 0.
\<close>

theorem dashboardStats_drift_counterexample:
  "unverified (dashboardStats (sampleState [sampleIncident ''A'' LOW UNVERIFIED])) =
     countUnverified (incidents (sampleState [sampleIncident ''A'' LOW UNVERIFIED])) \<and>
   unverified (dashboardStats (dispatch 7 (sampleState []) (VerifyIncident ''A'')
       (sampleState [sampleIncident ''A'' LOW UNVERIFIED]))) = 1 \<and>
   countUnverified (incidents (dispatch 7 (sampleState []) (VerifyIncident ''A'')
       (sampleState [sampleIncident ''A'' LOW UNVERIFIED]))) = 0"
  by (simp add: countUnverified_def verifyIncident_def addLog_def sampleState_def
      sampleIncident_def)

section \<open>The duplicate link across the user interface\<close>



section \<open>The order of the incident table\<close>

lemma compareIncidents_le_iff: "compareIncidents a b \<le> 0 \<longleftrightarrow> rank_key a \<le> rank_key b"
  by (auto simp: compareIncidents_def rank_key_def)

lemma precedes_iff: "precedes a b \<longleftrightarrow> rank_key a < rank_key b"
  by (auto simp: precedes_def rank_key_def)

lemma tied_iff: "tied a b \<longleftrightarrow> rank_key b = rank_key a"
  by (auto simp: tied_def rank_key_def)

lemma compareIncidents_neg_iff: "compareIncidents a b < 0 \<longleftrightarrow> precedes a b"
  by (auto simp: compareIncidents_def precedes_def)

lemma compareIncidents_zero_iff: "compareIncidents a b = 0 \<longleftrightarrow> tied a b"
  by (auto simp: compareIncidents_def tied_def)

lemma insertBy_insort_key: "insertBy compareIncidents x xs = insort_key rank_key x xs"
  by (induction xs) (simp_all add: compareIncidents_le_iff)

lemma sortedIncidents_sort_key: "sortedIncidents incs = sort_key rank_key incs"
  unfolding sortedIncidents_def
  by (induction incs) (simp_all add: insertBy_insort_key)

lemma sortedIncidents_no_inversion:
  assumes "i < j" "j < length (sortedIncidents incs)"
  shows "\<not> precedes (sortedIncidents incs ! j) (sortedIncidents incs ! i)"
proof -
  have "sorted (map rank_key (sortedIncidents incs))"
    by (simp add: sortedIncidents_sort_key)
  then have "map rank_key (sortedIncidents incs) ! i \<le> map rank_key (sortedIncidents incs) ! j"
    using assms by (intro sorted_nth_mono) simp_all
  then have "rank_key (sortedIncidents incs ! i) \<le> rank_key (sortedIncidents incs ! j)"
    using assms by simp
  then show ?thesis by (simp add: precedes_iff not_less)
qed

lemma sortedIncidents_critical_first:
  assumes "i < j" "j < length (sortedIncidents incs)"
    and "severity (sortedIncidents incs ! j) = CRITICAL"
  shows "severity (sortedIncidents incs ! i) = CRITICAL"
proof (rule ccontr)
  assume "severity (sortedIncidents incs ! i) \<noteq> CRITICAL"
  then have "precedes (sortedIncidents incs ! j) (sortedIncidents incs ! i)"
    using assms(3) by (simp add: precedes_def)
  then show False using sortedIncidents_no_inversion [OF assms(1,2)] by simp
qed

lemma sortedIncidents_keeps_ties: "filter (tied x) (sortedIncidents incs) = filter (tied x) incs"
proof -
  have "tied x = (\<lambda>y. rank_key y = rank_key x)"
    by (rule ext) (simp add: tied_iff)
  then show ?thesis
    by (simp add: sortedIncidents_sort_key sort_key_stable)
qed

lemma sortedIncidents_heap_result:
  assumes "a < length h"
  shows "sortedIncidents_heap h a = Some ((h @ [sortedIncidents (h ! a)]), length h)"
  using assms
  by (simp add: sortedIncidents_heap_def spread_def sort_in_place_def sortedIncidents_def
      nth_append)

lemma sortedIncidents_unique:
  assumes perm: "mset ys = mset incs"
    and sorted: "\<And>i j. i < j \<Longrightarrow> j < length ys \<Longrightarrow> \<not> precedes (ys ! j) (ys ! i)"
    and stable: "\<And>z. filter (tied z) ys = filter (tied z) incs"
  shows "ys = sortedIncidents incs"
proof -
  have "sorted (map rank_key ys)"
    unfolding sorted_iff_nth_mono_less
    using sorted by (auto simp: precedes_iff not_less)
  moreover have "filter (\<lambda>x. rank_key k = rank_key x) ys = filter (\<lambda>x. rank_key k = rank_key x) incs"
    for k
    using stable [of k] by (simp add: tied_iff [abs_def] eq_commute)
  ultimately have "sort_key rank_key incs = ys"
    using perm by (intro properties_for_sort_key) simp_all
  then show ?thesis by (simp add: sortedIncidents_sort_key)
qed

text \<open>
  Claim C7: the comparator of the table is negative exactly when the ranking rules put its
  first argument before the second and zero exactly when they tie; the sorted sequence is a
  permutation of the input in which no incident comes after one it has to precede (so no
  non-CRITICAL incident comes before a CRITICAL one, and among the others the higher
  priority, then the more upvotes, then the earlier creation comes first); tied incidents
  keep their input order; it is the only sequence with these three properties; and the sort
  works on a fresh array, so that every array of the heap, the input included, is as before.
\<close>

theorem sortedIncidents_stable_ranking:
  "mset (sortedIncidents incs) = mset incs \<and>
   (compareIncidents x y < 0 \<longleftrightarrow> precedes x y) \<and>
   (compareIncidents x y = 0 \<longleftrightarrow> tied x y) \<and>
   (\<forall>i j. i < j \<and> j < length (sortedIncidents incs) \<longrightarrow>
      \<not> precedes (sortedIncidents incs ! j) (sortedIncidents incs ! i)) \<and>
   (\<forall>i j. i < j \<and> j < length (sortedIncidents incs) \<and>
        severity (sortedIncidents incs ! j) = CRITICAL \<longrightarrow>
      severity (sortedIncidents incs ! i) = CRITICAL) \<and>
   (\<forall>z. filter (tied z) (sortedIncidents incs) = filter (tied z) incs) \<and>
   (mset ys = mset incs \<and>
    (\<forall>i j. i < j \<and> j < length ys \<longrightarrow> \<not> precedes (ys ! j) (ys ! i)) \<and>
    (\<forall>z. filter (tied z) ys = filter (tied z) incs) \<longrightarrow>
      ys = sortedIncidents incs) \<and>
   (a < length h \<longrightarrow>
      (\<exists>h'. sortedIncidents_heap h a = Some (h', length h) \<and>
         h' ! length h = sortedIncidents (h ! a) \<and>
         (\<forall>b < length h. h' ! b = h ! b)))"
proof (intro conjI allI impI)
  show "mset (sortedIncidents incs) = mset incs"
    by (simp add: sortedIncidents_sort_key)
  show "filter (tied z) (sortedIncidents incs) = filter (tied z) incs" for z
    by (rule sortedIncidents_keeps_ties)
  show "\<exists>h'. sortedIncidents_heap h a = Some (h', length h) \<and>
         h' ! length h = sortedIncidents (h ! a) \<and> (\<forall>b < length h. h' ! b = h ! b)"
    if "a < length h"
    using sortedIncidents_heap_result [OF that] by (simp add: nth_append)
  show "ys = sortedIncidents incs"
    if "mset ys = mset incs \<and>
        (\<forall>i j. i < j \<and> j < length ys \<longrightarrow> \<not> precedes (ys ! j) (ys ! i)) \<and>
        (\<forall>z. filter (tied z) ys = filter (tied z) incs)"
    using that by (intro sortedIncidents_unique) blast+
qed (auto simp: compareIncidents_neg_iff compareIncidents_zero_iff
      dest: sortedIncidents_no_inversion sortedIncidents_critical_first)

text \<open>
  The theorem at scenario 4 of the specification: severities HIGH, CRITICAL, MEDIUM with
  equal priority, upvotes and creation time.
\<close>

theorem sortedIncidents_stable_ranking_witness:
  "sortedIncidents rankingSample = rankedSample \<and>
   mset rankedSample = mset rankingSample \<and>
   (1::nat) < 2 \<and> 2 < length (sortedIncidents rankingSample) \<and>
   \<not> precedes (sortedIncidents rankingSample ! 2) (sortedIncidents rankingSample ! 1) \<and>
   tied (rankingSample ! 0) (rankingSample ! 2) \<and>
   filter (tied (rankingSample ! 0)) (sortedIncidents rankingSample)
     = [rankingSample ! 0, rankingSample ! 2] \<and>
   precedes (rankingSample ! 1) (rankingSample ! 0) \<and>
   compareIncidents (rankingSample ! 1) (rankingSample ! 0) < 0 \<and>
   (0::nat) < length [rankingSample] \<and>
   sortedIncidents_heap [rankingSample] 0 = Some ([rankingSample, rankedSample], 1)"
  using sortedIncidents_stable_ranking
    [of rankingSample "rankingSample ! 1" "rankingSample ! 0" rankedSample 0 "[rankingSample]"]
  by (simp add: sortedIncidents_def compareIncidents_def tied_def precedes_def
      sortedIncidents_heap_def spread_def sort_in_place_def sampleIncident_def
      rankingSample_def rankedSample_def)

end
